theory Spec2Isabelle
  imports Complex_Main "HOL-Library.AList"
begin

section \<open>Python values and strings\<close>

text \<open>
  The handler of \<^verbatim>\<open>docling_handler.py\<close> works on Python strings, dictionaries and
  duck-typed objects of the conversion engine. A Python \<^verbatim>\<open>str\<close> is modelled as a
  \<^typ>\<open>string\<close> whose characters are code points below 256 (Latin-1), which covers every
  literal of the source (its accented letters are one code point each). On this alphabet
  \<^verbatim>\<open>str.lower\<close> and \<^verbatim>\<open>str.isspace\<close> are the finite tables below.
\<close>

definition is_upper :: "char \<Rightarrow> bool" where
  "is_upper c =
     (let n = (of_char c :: nat)
      in (65 \<le> n \<and> n \<le> 90) \<or> (192 \<le> n \<and> n \<le> 222 \<and> n \<noteq> 215))"

text \<open>An upper-case letter and its lower-case form differ by 32, that is by bit 5.\<close>

fun lower_char :: "char \<Rightarrow> char" where
  "lower_char (Char b0 b1 b2 b3 b4 b5 b6 b7) =
     (if is_upper (Char b0 b1 b2 b3 b4 b5 b6 b7) then Char b0 b1 b2 b3 b4 True b6 b7
      else Char b0 b1 b2 b3 b4 b5 b6 b7)"

definition lower :: "string \<Rightarrow> string" where
  "lower s = map lower_char s"

definition is_space :: "char \<Rightarrow> bool" where
  "is_space c =
     (let n = (of_char c :: nat)
      in (9 \<le> n \<and> n \<le> 13) \<or> (28 \<le> n \<and> n \<le> 32) \<or> n = 133 \<or> n = 160)"

definition starts_with :: "string \<Rightarrow> string \<Rightarrow> bool" where
  "starts_with p s = (take (length p) s = p)"

text \<open>\<^verbatim>\<open>sub in s\<close> on strings: \<open>sub\<close> occurs in \<open>s\<close> as a contiguous run.\<close>

fun py_in :: "string \<Rightarrow> string \<Rightarrow> bool" where
  "py_in sub [] = (sub = [])"
| "py_in sub (c # cs) = (starts_with sub (c # cs) \<or> py_in sub cs)"

text \<open>
  \<^verbatim>\<open>s.replace(old, new)\<close>: every non-overlapping occurrence, from the left; an empty
  \<open>old\<close> matches before every character and at the end.
\<close>

function py_replace :: "string \<Rightarrow> string \<Rightarrow> string \<Rightarrow> string" where
  "py_replace old new [] = (if old = [] then new else [])"
| "py_replace old new (c # cs) =
     (if old = [] then new @ c # py_replace old new cs
      else if starts_with old (c # cs)
        then new @ py_replace old new (drop (length old) (c # cs))
      else c # py_replace old new cs)"
  by pat_completeness auto
termination
  by (relation "measure (\<lambda>(old, new, s). length s)") auto

text \<open>\<^verbatim>\<open>s.split()\<close>: the maximal runs of non-whitespace characters.\<close>

fun split_ws_from :: "string \<Rightarrow> string \<Rightarrow> string list" where
  "split_ws_from cur [] = (if cur = [] then [] else [cur])"
| "split_ws_from cur (c # cs) =
     (if is_space c then (if cur = [] then split_ws_from [] cs else cur # split_ws_from [] cs)
      else split_ws_from (cur @ [c]) cs)"

definition py_split_ws :: "string \<Rightarrow> string list" where
  "py_split_ws s = split_ws_from [] s"

text \<open>
  \<^verbatim>\<open>s.split(sep)\<close> for a non-empty separator (the source splits on \<^verbatim>\<open>'.'\<close>, on a newline
  and on two newlines): the pieces between the non-overlapping occurrences of \<open>sep\<close>, empty
  pieces kept, so the result is never empty.
\<close>

function split_from :: "string \<Rightarrow> string \<Rightarrow> string \<Rightarrow> string list" where
  "split_from sep cur [] = [cur]"
| "split_from sep cur (c # cs) =
     (if sep \<noteq> [] \<and> starts_with sep (c # cs)
      then cur # split_from sep [] (drop (length sep) (c # cs))
      else split_from sep (cur @ [c]) cs)"
  by pat_completeness auto
termination
  by (relation "measure (\<lambda>(sep, cur, s). length s)") auto

definition py_split :: "string \<Rightarrow> string \<Rightarrow> string list" where
  "py_split sep s = split_from sep [] s"

definition py_strip :: "string \<Rightarrow> string" where
  "py_strip s = rev (dropWhile is_space (rev (dropWhile is_space s)))"

text \<open>\<^verbatim>\<open>str(n)\<close> of a non-negative integer, as the f-string of the table summary prints it.\<close>

definition digit_char :: "nat \<Rightarrow> char" where
  "digit_char d = ''0123456789'' ! d"

function str_nat :: "nat \<Rightarrow> string" where
  "str_nat n = (if n < 10 then [digit_char n] else str_nat (n div 10) @ [digit_char (n mod 10)])"
  by pat_completeness auto
termination
  by (relation "measure id") auto

declare str_nat.simps [simp del]

text \<open>
  The values the handler puts into its result dictionaries. A dictionary keeps its
  insertion order, so it is an association list with distinct keys: \<^verbatim>\<open>d[k] = v\<close> is
  \<^const>\<open>AList.update\<close>, a lookup is \<^const>\<open>map_of\<close>. A Python float is modelled by the
  rational it denotes (its arithmetic is taken to be exact). \<open>JObj t\<close> is any other
  object, known by the name of its type only: it is not a string, has no length and cannot
  be iterated.
\<close>

datatype jval =
    JNone
  | JBool bool
  | JInt int
  | JFloat rat
  | JStr string
  | JList "jval list"
  | JTuple "jval list"
  | JDict "(string \<times> jval) list"
  | JObj string

type_synonym dict = "(string \<times> jval) list"

text \<open>Exceptions carry the text that \<^verbatim>\<open>str(e)\<close> gives.\<close>

datatype exn =
    TypeError string
  | AttributeError string
  | KeyError string
  | RuntimeError string
  | ExternalError string

fun str_exn :: "exn \<Rightarrow> string" where
  "str_exn (TypeError m) = m"
| "str_exn (AttributeError m) = m"
| "str_exn (KeyError m) = m"
| "str_exn (RuntimeError m) = m"
| "str_exn (ExternalError m) = m"

definition type_name :: "jval \<Rightarrow> string" where
  "type_name v =
     (case v of JNone \<Rightarrow> ''NoneType'' | JBool _ \<Rightarrow> ''bool'' | JInt _ \<Rightarrow> ''int''
      | JFloat _ \<Rightarrow> ''float'' | JStr _ \<Rightarrow> ''str'' | JList _ \<Rightarrow> ''list''
      | JTuple _ \<Rightarrow> ''tuple'' | JDict _ \<Rightarrow> ''dict'' | JObj t \<Rightarrow> t)"

text \<open>\<^verbatim>\<open>d[k]\<close>: a missing key raises \<^verbatim>\<open>KeyError\<close>.\<close>

definition getitem :: "dict \<Rightarrow> string \<Rightarrow> exn + jval" where
  "getitem d k = (case map_of d k of None \<Rightarrow> Inl (KeyError k) | Some v \<Rightarrow> Inr v)"

section \<open>The lexical translator\<close>

text \<open>
  \<^verbatim>\<open>_translate_to_french\<close> and \<^verbatim>\<open>_translate_to_english\<close>: each walks its table in
  insertion order and returns at the first entry whose key it finds.
\<close>

definition translations_fr :: "(string \<times> string) list" where
  "translations_fr =
     [(''a person'', ''une personne''),
      (''a man'', ''un homme''),
      (''a woman'', ''une femme''),
      (''a dog'', ''un chien''),
      (''a cat'', ''un chat''),
      (''a car'', ''une voiture''),
      (''a building'', ''un b'' @ [CHR 0xE2] @ ''timent''),
      (''a tree'', ''un arbre''),
      (''a table'', ''une table''),
      (''a chair'', ''une chaise''),
      (''text'', ''texte''),
      (''document'', ''document''),
      (''chart'', ''graphique''),
      (''diagram'', ''diagramme''),
      (''image'', ''image'')]"

definition translations_en :: "(string \<times> string) list" where
  "translations_en =
     [(''une personne'', ''a person''),
      (''un homme'', ''a man''),
      (''une femme'', ''a woman''),
      (''un chien'', ''a dog''),
      (''un chat'', ''a cat''),
      (''une voiture'', ''a car''),
      (''un b'' @ [CHR 0xE2] @ ''timent'', ''a building''),
      (''un arbre'', ''a tree''),
      (''une table'', ''a table''),
      (''une chaise'', ''a chair''),
      (''texte'', ''text''),
      (''document'', ''document''),
      (''graphique'', ''chart''),
      (''diagramme'', ''diagram''),
      (''image'', ''image'')]"

text \<open>The forward loop tests the key against the lower-cased text and replaces in the text itself.\<close>

fun translate_loop_fr :: "(string \<times> string) list \<Rightarrow> string \<Rightarrow> string \<Rightarrow> string" where
  "translate_loop_fr [] text_lower text = text"
| "translate_loop_fr ((en, fr) # rest) text_lower text =
     (if py_in en text_lower then py_replace en fr text
      else translate_loop_fr rest text_lower text)"

definition translate_to_french :: "string \<Rightarrow> string" where
  "translate_to_french text = translate_loop_fr translations_fr (lower text) text"

fun translate_loop_en :: "(string \<times> string) list \<Rightarrow> string \<Rightarrow> string" where
  "translate_loop_en [] text = text"
| "translate_loop_en ((fr, en) # rest) text =
     (if py_in fr text then py_replace fr en text else translate_loop_en rest text)"

definition translate_to_english :: "string \<Rightarrow> string" where
  "translate_to_english text = translate_loop_en translations_en text"

text \<open>
  The translator as the specification words it: the first entry of the table that matches
  is applied, and a text no entry matches is returned as it is. Forward, an entry matches
  when its phrase is a substring of the text up to case; backward, when it is a substring.
\<close>

definition ci_substring :: "string \<Rightarrow> string \<Rightarrow> bool" where
  "ci_substring phrase text = py_in (lower phrase) (lower text)"

definition lexical_translate_spec ::
  "(string \<Rightarrow> bool) \<Rightarrow> (string \<times> string) list \<Rightarrow> string \<Rightarrow> string" where
  "lexical_translate_spec matches table text =
     (case find (\<lambda>(phrase, _). matches phrase) table of
        None \<Rightarrow> text
      | Some (phrase, subst) \<Rightarrow> py_replace phrase subst text)"

section \<open>The conversion engine's objects and the external models\<close>

text \<open>
  The objects of the conversion engine are duck-typed: an attribute that \<^verbatim>\<open>hasattr\<close>
  looks for is an \<open>option\<close> (\<open>None\<close> when the object does not have it); a value the code
  iterates over is a list of members or some object that cannot be iterated.
\<close>

definition quoted :: "string \<Rightarrow> string" where
  "quoted s = CHR 0x27 # s @ [CHR 0x27]"

datatype 'a iterable = Items "'a list" | NotIterable string

definition py_iter :: "'a iterable \<Rightarrow> exn + 'a list" where
  "py_iter v =
     (case v of
        Items xs \<Rightarrow> Inr xs
      | NotIterable t \<Rightarrow> Inl (TypeError (quoted t @ '' object is not iterable'')))"

definition py_len :: "jval \<Rightarrow> exn + nat" where
  "py_len v =
     (case v of
        JStr s \<Rightarrow> Inr (length s)
      | JList xs \<Rightarrow> Inr (length xs)
      | JTuple xs \<Rightarrow> Inr (length xs)
      | JDict d \<Rightarrow> Inr (length d)
      | _ \<Rightarrow> Inl (TypeError (''object of type '' @ quoted (type_name v) @ '' has no len()'')))"

record table =
  rows :: "jval option"
  columns :: "jval option"

record element =
  el_label :: "jval option"
  el_text :: "jval option"
  el_level :: "jval option"
  el_list_type :: "jval option"

text \<open>
  \<^verbatim>\<open>result.document\<close>: its collections, and what its two export methods return or raise.
\<close>

record 'i document =
  images :: "'i iterable option"
  tables :: "table iterable option"
  elements :: "element iterable option"
  export_to_markdown :: "exn + jval"
  export_to_html :: "exn + jval"

text \<open>
  The external models. \<open>caption_image\<close> is the captioning of one image (conversion to PIL,
  the BLIP processor, generation and decoding): a caption or an exception. \<open>finditer\<close> is
  \<^verbatim>\<open>re.finditer\<close> on a pattern and a text: the matches in order, each with its text and span.
\<close>

record 'i env =
  caption_image :: "'i \<Rightarrow> exn + string"
  finditer :: "string \<Rightarrow> string \<Rightarrow> (string \<times> nat \<times> nat) list"

text \<open>The fields of the handler object that \<^verbatim>\<open>convert_document\<close> reads or writes.\<close>

record handler =
  model_loaded :: bool
  converter_present :: bool
  image_model_loaded :: bool
  formula_model_loaded :: bool

section \<open>Image descriptions\<close>

text \<open>
  \<^verbatim>\<open>_generate_image_description\<close>: any exception of the captioning is caught here and
  answered with a fixed caption.
\<close>

definition generate_image_description :: "'i env \<Rightarrow> 'i \<Rightarrow> string" where
  "generate_image_description env img =
     (case caption_image env img of
        Inl e \<Rightarrow> ''Image avec contenu visuel''
      | Inr caption \<Rightarrow> translate_to_french caption)"

definition image_record :: "nat \<Rightarrow> string \<Rightarrow> string \<Rightarrow> jval" where
  "image_record i fr en =
     JDict [(''index'', JInt (int i)), (''description_fr'', JStr fr), (''description_en'', JStr en)]"

definition image_fallback :: "nat \<Rightarrow> jval" where
  "image_fallback i = image_record i ''Description non disponible'' ''Description not available''"

text \<open>
  The body of the images loop for one image, with its \<^verbatim>\<open>try\<close>/\<^verbatim>\<open>except\<close>. The two calls
  it makes are arguments, each returning its value or the exception it raised, so that the
  handler of the loop is a branch whatever the callees do.
\<close>

definition describe_image ::
  "('i \<Rightarrow> exn + string) \<Rightarrow> (string \<Rightarrow> exn + string) \<Rightarrow> nat \<Rightarrow> 'i \<Rightarrow> jval" where
  "describe_image gen tr i img =
     (case gen img of
        Inl e \<Rightarrow> image_fallback i
      | Inr description \<Rightarrow>
          (case tr description of
             Inl e \<Rightarrow> image_fallback i
           | Inr english \<Rightarrow> image_record i description english))"

fun images_loop ::
  "('i \<Rightarrow> exn + string) \<Rightarrow> (string \<Rightarrow> exn + string) \<Rightarrow> nat \<Rightarrow> 'i list \<Rightarrow> jval list" where
  "images_loop gen tr i [] = []"
| "images_loop gen tr i (img # rest) =
     describe_image gen tr i img # images_loop gen tr (Suc i) rest"

text \<open>The loop as the handler runs it: neither of its two callees raises.\<close>

definition describe_images :: "'i env \<Rightarrow> 'i list \<Rightarrow> jval list" where
  "describe_images env imgs =
     images_loop (\<lambda>img. Inr (generate_image_description env img))
       (\<lambda>d. Inr (translate_to_english d)) 0 imgs"

text \<open>
  \<^verbatim>\<open>_add_image_descriptions\<close>: \<open>add_image_descriptions_try\<close> is the body of its outer
  \<^verbatim>\<open>try\<close>, the function itself returns the dictionary unchanged when the body raised.
\<close>

definition add_image_descriptions_try ::
  "handler \<Rightarrow> 'i env \<Rightarrow> 'i document \<Rightarrow> dict \<Rightarrow> exn + dict" where
  "add_image_descriptions_try h env doc enhanced_result =
     (if \<not> image_model_loaded h then Inr enhanced_result
      else
        (case py_iter (case images doc of None \<Rightarrow> Items [] | Some v \<Rightarrow> v) of
           Inl e \<Rightarrow> Inl e
         | Inr imgs \<Rightarrow>
             Inr (AList.update ''image_descriptions'' (JList (describe_images env imgs))
                    enhanced_result)))"

definition add_image_descriptions ::
  "handler \<Rightarrow> 'i env \<Rightarrow> 'i document \<Rightarrow> dict \<Rightarrow> dict" where
  "add_image_descriptions h env doc enhanced_result =
     (case add_image_descriptions_try h env doc enhanced_result of
        Inl e \<Rightarrow> enhanced_result
      | Inr r \<Rightarrow> r)"

section \<open>Formula enrichment\<close>

definition clean_formula :: "string \<Rightarrow> string" where
  "clean_formula formula =
     py_replace [CHR 0x5C, CHR '')''] []
       (py_replace [CHR 0x5C, CHR ''(''] []
         (py_replace [CHR 0x5C, CHR '']''] []
           (py_replace [CHR 0x5C, CHR ''[''] []
             (py_replace ''$'' [] formula))))"

definition set_kind :: "string \<Rightarrow> string \<Rightarrow> string \<Rightarrow> dict \<Rightarrow> dict" where
  "set_kind t fr en enrichment =
     AList.update ''description_en'' (JStr en)
       (AList.update ''description_fr'' (JStr fr)
         (AList.update ''type'' (JStr t) enrichment))"

text \<open>
  \<^verbatim>\<open>_enrich_single_formula\<close>. Its argument is a string wherever the handler calls it; on
  any other object \<^verbatim>\<open>formula.replace\<close> raises and the \<^verbatim>\<open>except\<close> branch answers.
\<close>

definition enrich_single_formula :: "jval \<Rightarrow> jval" where
  "enrich_single_formula formula =
     (case formula of
        JStr f \<Rightarrow>
          (let clean = clean_formula f;
               enrichment =
                 [(''formula'', JStr clean),
                  (''type'', JStr ''mathematical_expression''),
                  (''description_fr'', JStr (''Expression math'' @ [CHR 0xE9] @ ''matique'')),
                  (''description_en'', JStr ''Mathematical expression''),
                  (''latex'', JStr (''$'' @ clean @ ''$'')),
                  (''simplified'', JStr clean)]
           in JDict
             (if py_in ''+'' clean \<or> py_in ''-'' clean then
                set_kind ''arithmetic'' (''Op'' @ [CHR 0xE9] @ ''ration arithm'' @ [CHR 0xE9] @ ''tique'')
                  ''Arithmetic operation'' enrichment
              else if py_in ''='' clean then
                set_kind ''equation'' ([CHR 0xC9] @ ''quation math'' @ [CHR 0xE9] @ ''matique'')
                  ''Mathematical equation'' enrichment
              else if py_in ''^'' clean \<or> py_in ''**'' clean then
                set_kind ''exponential'' ''Expression exponentielle''
                  ''Exponential expression'' enrichment
              else enrichment))
      | other \<Rightarrow>
          JDict [(''formula'', other),
                 (''type'', JStr ''unknown''),
                 (''description_fr'', JStr ''Formule non reconnue''),
                 (''description_en'', JStr ''Unrecognized formula'')])"

definition math_patterns :: "string list" where
  "math_patterns =
     [[CHR 0x5C] @ ''$[^$]+'' @ [CHR 0x5C] @ ''$'',
      [CHR 0x5C, CHR 0x5C, CHR 0x5C] @ ''[[^'' @ [CHR 0x5C] @ '']]+''
        @ [CHR 0x5C, CHR 0x5C, CHR 0x5C] @ '']'',
      [CHR 0x5C, CHR 0x5C, CHR 0x5C] @ ''([^)]+'' @ [CHR 0x5C, CHR 0x5C, CHR 0x5C] @ '')'',
      ''[a-zA-Z]'' @ [CHR 0x5C] @ ''s*[=<>]'' @ [CHR 0x5C] @ ''s*[a-zA-Z0-9+''
        @ [CHR 0x5C] @ ''-*/^()]+'',
      ''[0-9]+'' @ [CHR 0x5C] @ ''s*[+'' @ [CHR 0x5C] @ ''-*/]'' @ [CHR 0x5C] @ ''s*[0-9]+'']"

definition formula_record :: "string \<Rightarrow> jval \<Rightarrow> nat \<times> nat \<Rightarrow> jval" where
  "formula_record formula_text enriched pos =
     JDict [(''original'', JStr formula_text),
            (''enriched'', enriched),
            (''position'', JTuple [JInt (int (fst pos)), JInt (int (snd pos))])]"

text \<open>
  The loop over the matches of one pattern. Its \<^verbatim>\<open>except\<close> branch logs a warning and
  goes on to the next match: it appends nothing.
\<close>

fun matches_loop :: "(string \<Rightarrow> exn + jval) \<Rightarrow> (string \<times> nat \<times> nat) list \<Rightarrow> jval list" where
  "matches_loop enrich [] = []"
| "matches_loop enrich ((formula_text, pos) # rest) =
     (case enrich formula_text of
        Inl e \<Rightarrow> matches_loop enrich rest
      | Inr enriched \<Rightarrow> formula_record formula_text enriched pos # matches_loop enrich rest)"

definition patterns_loop ::
  "(string \<Rightarrow> exn + jval) \<Rightarrow> (string \<Rightarrow> (string \<times> nat \<times> nat) list) \<Rightarrow> string list \<Rightarrow> jval list" where
  "patterns_loop enrich find_in_content patterns =
     concat (map (\<lambda>pattern. matches_loop enrich (find_in_content pattern)) patterns)"

definition enrich_formulas_try :: "handler \<Rightarrow> 'i env \<Rightarrow> dict \<Rightarrow> exn + dict" where
  "enrich_formulas_try h env enhanced_result =
     (if \<not> formula_model_loaded h then Inr enhanced_result
      else
        (case getitem enhanced_result ''content'' of
           Inl e \<Rightarrow> Inl e
         | Inr (JStr content) \<Rightarrow>
             Inr (AList.update ''formula_enrichments''
                    (JList (patterns_loop (\<lambda>f. Inr (enrich_single_formula (JStr f)))
                              (\<lambda>pattern. finditer env pattern content) math_patterns))
                    enhanced_result)
         | Inr other \<Rightarrow> Inl (TypeError ''expected string or bytes-like object'')))"

definition enrich_formulas :: "handler \<Rightarrow> 'i env \<Rightarrow> dict \<Rightarrow> dict" where
  "enrich_formulas h env enhanced_result =
     (case enrich_formulas_try h env enhanced_result of
        Inl e \<Rightarrow> enhanced_result
      | Inr r \<Rightarrow> r)"

section \<open>Table analysis\<close>

text \<open>\<^verbatim>\<open>analysis["rows"]\<close> read back as a number.\<close>

definition int_at :: "dict \<Rightarrow> string \<Rightarrow> int" where
  "int_at d k = (case map_of d k of Some (JInt n) \<Rightarrow> n | _ \<Rightarrow> 0)"

definition read_len :: "string \<Rightarrow> jval option \<Rightarrow> dict \<Rightarrow> exn + dict" where
  "read_len k attr analysis =
     (case attr of
        None \<Rightarrow> Inr analysis
      | Some v \<Rightarrow>
          (case py_len v of
             Inl e \<Rightarrow> Inl e
           | Inr n \<Rightarrow> Inr (AList.update k (JInt (int n)) analysis)))"

definition table_error :: "nat \<Rightarrow> exn \<Rightarrow> jval" where
  "table_error index e =
     JDict [(''index'', JInt (int index)), (''error'', JStr (str_exn e)), (''type'', JStr ''unknown'')]"

text \<open>
  \<^verbatim>\<open>_analyze_single_table\<close>: \<open>analyze_single_table_try\<close> is the body of its
  \<^verbatim>\<open>try\<close>; \<^verbatim>\<open>len\<close> of an attribute that has no length is what can raise there.
\<close>

definition analyze_single_table_try :: "table \<Rightarrow> nat \<Rightarrow> exn + dict" where
  "analyze_single_table_try table index =
     (let analysis =
            [(''index'', JInt (int index)),
             (''type'', JStr ''data_table''),
             (''description_fr'', JStr (''Tableau de donn'' @ [CHR 0xE9] @ ''es'')),
             (''description_en'', JStr ''Data table''),
             (''rows'', JInt 0),
             (''columns'', JInt 0),
             (''has_headers'', JBool False),
             (''data_types'', JList []),
             (''summary'', JStr [])]
      in case read_len ''rows'' (rows table) analysis of
           Inl e \<Rightarrow> Inl e
         | Inr a1 \<Rightarrow>
             (case read_len ''columns'' (columns table) a1 of
                Inl e \<Rightarrow> Inl e
              | Inr a2 \<Rightarrow>
                  (let a3 =
                         (if int_at a2 ''rows'' > 0 then
                            AList.update ''description_en'' (JStr ''Table with headers'')
                              (AList.update ''description_fr''
                                 (JStr (''Tableau avec en-t'' @ [CHR 0xEA] @ ''tes''))
                                 (AList.update ''has_headers'' (JBool True) a2))
                          else a2)
                   in Inr
                     (if int_at a3 ''rows'' > 0 \<and> int_at a3 ''columns'' > 0 then
                        AList.update ''summary''
                          (JStr (''Tableau de '' @ str_nat (nat (int_at a3 ''rows''))
                                 @ '' lignes et '' @ str_nat (nat (int_at a3 ''columns''))
                                 @ '' colonnes''))
                          a3
                      else a3))))"

definition analyze_single_table :: "table \<Rightarrow> nat \<Rightarrow> jval" where
  "analyze_single_table table index =
     (case analyze_single_table_try table index of
        Inl e \<Rightarrow> table_error index e
      | Inr analysis \<Rightarrow> JDict analysis)"

text \<open>The tables loop, with the call it makes as an argument.\<close>

fun tables_loop :: "(table \<Rightarrow> nat \<Rightarrow> exn + jval) \<Rightarrow> nat \<Rightarrow> table list \<Rightarrow> jval list" where
  "tables_loop analyze i [] = []"
| "tables_loop analyze i (table # rest) =
     (case analyze table i of
        Inl e \<Rightarrow> table_error i e
      | Inr analysis \<Rightarrow> analysis) # tables_loop analyze (Suc i) rest"

definition analyze_tables_try :: "'i document \<Rightarrow> dict \<Rightarrow> exn + dict" where
  "analyze_tables_try doc enhanced_result =
     (case py_iter (case tables doc of None \<Rightarrow> Items [] | Some v \<Rightarrow> v) of
        Inl e \<Rightarrow> Inl e
      | Inr tbls \<Rightarrow>
          Inr (AList.update ''table_analysis''
                 (JList (tables_loop (\<lambda>table i. Inr (analyze_single_table table i)) 0 tbls))
                 enhanced_result))"

definition analyze_tables :: "'i document \<Rightarrow> dict \<Rightarrow> dict" where
  "analyze_tables doc enhanced_result =
     (case analyze_tables_try doc enhanced_result of
        Inl e \<Rightarrow> enhanced_result
      | Inr r \<Rightarrow> r)"

section \<open>Content enhancement\<close>

text \<open>
  \<^verbatim>\<open>_calculate_readability\<close>. \<^verbatim>\<open>min(100, r)\<close> and \<^verbatim>\<open>max(0, m)\<close> return their first
  argument, the integer, unless the second is strictly smaller, respectively greater. On
  an object that is not a string \<^verbatim>\<open>text.split\<close> raises and the default is returned.
\<close>

definition calculate_readability :: "jval \<Rightarrow> jval" where
  "calculate_readability v =
     (case v of
        JStr s \<Rightarrow>
          (let words = py_split_ws s;
               sentences = py_split ''.'' s
           in if length sentences = 0 \<or> length words = 0 then JFloat 0
              else
                (let avg_words_per_sentence = rat_of_nat (length words) / rat_of_nat (length sentences);
                     avg_chars_per_word =
                       rat_of_nat (sum_list (map length words)) / rat_of_nat (length words);
                     readability = 100 - avg_words_per_sentence * (1 / 2) - avg_chars_per_word * 2
                 in if readability < 100
                    then (if 0 < readability then JFloat readability else JInt 0)
                    else JInt 100))
      | _ \<Rightarrow> JFloat 50)"

text \<open>The number a returned score denotes.\<close>

definition score :: "jval \<Rightarrow> rat" where
  "score v = (case v of JFloat r \<Rightarrow> r | JInt n \<Rightarrow> rat_of_int n | _ \<Rightarrow> 0)"

text \<open>The content-type detection of \<^verbatim>\<open>_enhance_content\<close>: three assignments in a row.\<close>

definition detect_content_type :: "string \<Rightarrow> string" where
  "detect_content_type content =
     (let t0 = ''document'';
          t1 = (if py_in ''table'' (lower content) \<or> py_in ''|'' content
                then ''document_with_tables'' else t0);
          t2 = (if py_in ''image'' (lower content) \<or> py_in ''![image]'' content
                then ''document_with_images'' else t1);
          t3 = (if list_ex (\<lambda>marker. py_in marker content)
                     [''$'', [CHR 0x5C, CHR ''[''], [CHR 0x5C, CHR ''('']]
                then ''document_with_formulas'' else t2)
      in t3)"

definition enhance_content_try :: "dict \<Rightarrow> exn + dict" where
  "enhance_content_try enhanced_result =
     (case getitem enhanced_result ''content'' of
        Inl e \<Rightarrow> Inl e
      | Inr (JStr content) \<Rightarrow>
          (let stats =
                 [(''word_count'', JInt (int (length (py_split_ws content)))),
                  (''character_count'', JInt (int (length content))),
                  (''line_count'', JInt (int (length (py_split [CHR 0x0A] content)))),
                  (''paragraph_count'',
                     JInt (int (length (filter (\<lambda>p. py_strip p \<noteq> [])
                                          (py_split [CHR 0x0A, CHR 0x0A] content)))))]
           in Inr (AList.update ''content_enhancement''
                     (JDict [(''statistics'', JDict stats),
                             (''content_type'', JStr (detect_content_type content)),
                             (''language_detected'', JStr ''fr''),
                             (''readability_score'', calculate_readability (JStr content))])
                     enhanced_result))
      | Inr other \<Rightarrow>
          Inl (AttributeError (quoted (type_name other) @ '' object has no attribute ''
                               @ quoted ''split'')))"

definition enhance_content :: "dict \<Rightarrow> dict" where
  "enhance_content enhanced_result =
     (case enhance_content_try enhanced_result of
        Inl e \<Rightarrow> enhanced_result
      | Inr r \<Rightarrow> r)"

section \<open>Document structure\<close>

definition getattr_default :: "jval option \<Rightarrow> jval \<Rightarrow> jval" where
  "getattr_default attr d = (case attr of None \<Rightarrow> d | Some v \<Rightarrow> v)"

text \<open>
  The loop over the elements; the two lists it appends to are carried along, the other
  entries of the structure stay empty.
\<close>

fun elements_loop :: "element list \<Rightarrow> jval list \<Rightarrow> jval list \<Rightarrow> jval list \<times> jval list" where
  "elements_loop [] headings list_items = (headings, list_items)"
| "elements_loop (el # rest) headings list_items =
     (case el_label el of
        None \<Rightarrow> elements_loop rest headings list_items
      | Some l \<Rightarrow>
          if l = JStr ''heading'' then
            elements_loop rest
              (headings @ [JDict [(''text'', getattr_default (el_text el) (JStr [])),
                                  (''level'', getattr_default (el_level el) (JInt 1))]])
              list_items
          else if l = JStr ''list'' then
            elements_loop rest headings
              (list_items @ [JDict [(''text'', getattr_default (el_text el) (JStr [])),
                               (''type'', getattr_default (el_list_type el) (JStr ''bullet''))]])
          else elements_loop rest headings list_items)"

definition analyze_document_structure_try :: "'i document \<Rightarrow> dict \<Rightarrow> exn + dict" where
  "analyze_document_structure_try doc enhanced_result =
     (case (case elements doc of
              None \<Rightarrow> Inr ([], [])
            | Some v \<Rightarrow>
                (case py_iter v of Inl e \<Rightarrow> Inl e | Inr els \<Rightarrow> Inr (elements_loop els [] []))) of
        Inl e \<Rightarrow> Inl e
      | Inr (headings, list_items) \<Rightarrow>
          Inr (AList.update ''document_structure''
                 (JDict [(''sections'', JList []),
                         (''headings'', JList headings),
                         (''lists'', JList list_items),
                         (''figures'', JList []),
                         (''tables'', JList []),
                         (''formulas'', JList [])])
                 enhanced_result))"

definition analyze_document_structure :: "'i document \<Rightarrow> dict \<Rightarrow> dict" where
  "analyze_document_structure doc enhanced_result =
     (case analyze_document_structure_try doc enhanced_result of
        Inl e \<Rightarrow> enhanced_result
      | Inr r \<Rightarrow> r)"

section \<open>The orchestrator\<close>

text \<open>The arguments of \<^verbatim>\<open>convert_document\<close>.\<close>

record request =
  file_path :: string
  output_format :: string
  include_images :: bool
  include_tables :: bool
  include_image_descriptions :: bool
  include_formula_enrichment :: bool
  ocr_languages :: "string list option"
  enhance_content_flag :: bool

text \<open>\<^verbatim>\<open>enhanced_result["metadata"]["features_used"].append(name)\<close>.\<close>

definition append_feature :: "string \<Rightarrow> dict \<Rightarrow> exn + dict" where
  "append_feature name enhanced_result =
     (case getitem enhanced_result ''metadata'' of
        Inl e \<Rightarrow> Inl e
      | Inr (JDict metadata) \<Rightarrow>
          (case getitem metadata ''features_used'' of
             Inl e \<Rightarrow> Inl e
           | Inr (JList used) \<Rightarrow>
               Inr (AList.update ''metadata''
                      (JDict (AList.update ''features_used'' (JList (used @ [JStr name])) metadata))
                      enhanced_result)
           | Inr other \<Rightarrow>
               Inl (AttributeError (quoted (type_name other) @ '' object has no attribute ''
                                    @ quoted ''append'')))
      | Inr other \<Rightarrow> Inl (TypeError (quoted (type_name other) @ '' object is not subscriptable'')))"

definition and_then :: "exn + 'a \<Rightarrow> ('a \<Rightarrow> exn + 'b) \<Rightarrow> exn + 'b" where
  "and_then r f = (case r of Inl e \<Rightarrow> Inl e | Inr x \<Rightarrow> f x)"

text \<open>One guarded stage: the stage is called, then its name is appended.\<close>

definition run_stage :: "bool \<Rightarrow> (dict \<Rightarrow> dict) \<Rightarrow> string \<Rightarrow> dict \<Rightarrow> exn + dict" where
  "run_stage requested stage name enhanced_result =
     (if requested then append_feature name (stage enhanced_result) else Inr enhanced_result)"

definition initial_result :: "request \<Rightarrow> jval \<Rightarrow> dict" where
  "initial_result rq content =
     [(''content'', content),
      (''output_format'', JStr (output_format rq)),
      (''metadata'',
         JDict [(''file_path'', JStr (file_path rq)),
                (''processing_time'', JNone),
                (''features_used'', JList [])])]"

text \<open>
  The enhanced processing of \<^verbatim>\<open>convert_document\<close>, from the construction of
  \<^verbatim>\<open>enhanced_result\<close> to its return.
\<close>

definition enrich :: "handler \<Rightarrow> 'i env \<Rightarrow> request \<Rightarrow> 'i document \<Rightarrow> jval \<Rightarrow> exn + dict" where
  "enrich h env rq doc content =
     and_then
       (run_stage (include_images rq \<and> include_image_descriptions rq \<and> image_model_loaded h)
          (add_image_descriptions h env doc) ''image_descriptions'' (initial_result rq content))
       (\<lambda>r1. and_then
          (run_stage (include_formula_enrichment rq \<and> formula_model_loaded h)
             (enrich_formulas h env) ''formula_enrichment'' r1)
          (\<lambda>r2. and_then
             (run_stage (include_tables rq) (analyze_tables doc) ''table_analysis'' r2)
             (\<lambda>r3. and_then
                (run_stage (enhance_content_flag rq) enhance_content ''content_enhancement'' r3)
                (\<lambda>r4. run_stage True (analyze_document_structure doc) ''structure_analysis'' r4))))"

text \<open>
  What loading the converter and the two models does when \<^verbatim>\<open>initialize\<close> runs: \<open>None\<close>
  when it succeeds, the exception otherwise. A model that fails to load is logged and its
  flag is left as it was.
\<close>

record loader =
  converter_init :: "exn option"
  image_model_init :: "exn option"
  formula_model_init :: "exn option"

definition initialize :: "loader \<Rightarrow> handler \<Rightarrow> (exn + unit) \<times> handler" where
  "initialize ld h =
     (case converter_init ld of
        Some e \<Rightarrow> (Inl e, h)
      | None \<Rightarrow>
          (Inr (),
           h\<lparr>converter_present := True,
             image_model_loaded := (image_model_init ld = None \<or> image_model_loaded h),
             formula_model_loaded := (formula_model_init ld = None \<or> formula_model_loaded h),
             model_loaded := True\<rparr>))"

definition is_ready :: "loader \<Rightarrow> handler \<Rightarrow> bool \<times> handler" where
  "is_ready ld h =
     (if \<not> model_loaded h then
        (case initialize ld h of
           (Inl e, h') \<Rightarrow> (False, h')
         | (Inr u, h') \<Rightarrow> (model_loaded h' \<and> converter_present h', h'))
      else (model_loaded h \<and> converter_present h, h))"

text \<open>
  \<^verbatim>\<open>convert_document\<close>. \<open>conversion\<close> is what \<^verbatim>\<open>self.converter.convert(file_path)\<close>
  returns or raises in this call (the OCR languages are set on the converter only, so they
  act through it). The handler is returned with the result, since the call may load the
  models.
\<close>

definition convert_document ::
  "loader \<Rightarrow> 'i env \<Rightarrow> handler \<Rightarrow> request \<Rightarrow> exn + 'i document \<Rightarrow> (exn + dict) \<times> handler" where
  "convert_document ld env h rq conversion =
     (case is_ready ld h of
        (ready, h') \<Rightarrow>
          if \<not> ready then (Inl (RuntimeError ''Docling handler is not ready''), h')
          else
            (and_then conversion
               (\<lambda>doc. and_then
                  (if lower (output_format rq) = ''html'' then export_to_html doc
                   else export_to_markdown doc)
                  (\<lambda>content. enrich h' env rq doc content)),
             h'))"

text \<open>\<^verbatim>\<open>metadata.features_used\<close> of a result, as a list of names.\<close>

definition features_used :: "dict \<Rightarrow> string list" where
  "features_used r =
     (case map_of r ''metadata'' of
        Some (JDict metadata) \<Rightarrow>
          (case map_of metadata ''features_used'' of
             Some (JList used) \<Rightarrow> concat (map (\<lambda>v. case v of JStr n \<Rightarrow> [n] | _ \<Rightarrow> []) used)
           | _ \<Rightarrow> [])
      | _ \<Rightarrow> [])"

section \<open>Notions used in the statements\<close>

text \<open>An entry of a returned dictionary.\<close>

definition entry :: "jval \<Rightarrow> string \<Rightarrow> jval option" where
  "entry v k = (case v of JDict d \<Rightarrow> map_of d k | _ \<Rightarrow> None)"

text \<open>
  The classification of a cleaned formula as the specification words it: the first rule
  that applies, in this order.
\<close>

definition classify_spec :: "string \<Rightarrow> string" where
  "classify_spec c =
     (if py_in ''+'' c \<or> py_in ''-'' c then ''arithmetic''
      else if py_in ''='' c then ''equation''
      else if py_in ''^'' c \<or> py_in ''**'' c then ''exponential''
      else ''mathematical_expression'')"

text \<open>
  The three marker checks of the content-type detection as the specification words them;
  the words are looked for in the lower-cased text.
\<close>

definition table_marker :: "string \<Rightarrow> bool" where
  "table_marker c = (ci_substring ''table'' c \<or> py_in ''|'' c)"

definition image_marker :: "string \<Rightarrow> bool" where
  "image_marker c = (ci_substring ''image'' c \<or> py_in ''![image]'' c)"

definition formula_marker :: "string \<Rightarrow> bool" where
  "formula_marker c =
     (py_in ''$'' c \<or> py_in [CHR 0x5C, CHR ''[''] c \<or> py_in [CHR 0x5C, CHR ''(''] c)"

text \<open>
  The readability formula on a text, before clamping: 100, less half the average number of
  words per sentence, less twice the average number of characters per word.
\<close>

definition readability_formula :: "string \<Rightarrow> rat" where
  "readability_formula s =
     100 - rat_of_nat (length (py_split_ws s)) / rat_of_nat (length (py_split ''.'' s)) * (1 / 2)
         - rat_of_nat (sum_list (map length (py_split_ws s)))
             / rat_of_nat (length (py_split_ws s)) * 2"

text \<open>
  The count a table exposes under an attribute: zero when the attribute is absent, its
  length when it has one.
\<close>

definition exposed_count :: "jval option \<Rightarrow> exn + nat" where
  "exposed_count attr = (case attr of None \<Rightarrow> Inr 0 | Some v \<Rightarrow> py_len v)"

text \<open>
  What a stage may do to the dictionary it is given: \<open>attempt\<close> is the outcome of the body
  of its \<^verbatim>\<open>try\<close>, \<open>before\<close> and \<open>after\<close> are the dictionary passed in and the one
  returned. When the body raised, the dictionary comes back as it was; otherwise it comes
  back as it was or with the one key assigned.
\<close>

definition writes_only :: "string \<Rightarrow> exn + dict \<Rightarrow> dict \<Rightarrow> dict \<Rightarrow> bool" where
  "writes_only key attempt before after =
     (case attempt of
        Inl e \<Rightarrow> after = before
      | Inr r \<Rightarrow> after = r \<and> (r = before \<or> (\<exists>v. r = AList.update key v before)))"

text \<open>
  The names the orchestrator appends, in its order: a stage is named when its guard holds;
  the structure analysis has no guard.
\<close>

definition expected_features :: "handler \<Rightarrow> request \<Rightarrow> string list" where
  "expected_features h rq =
     (if include_images rq \<and> include_image_descriptions rq \<and> image_model_loaded h
      then [''image_descriptions''] else [])
     @ (if include_formula_enrichment rq \<and> formula_model_loaded h
        then [''formula_enrichment''] else [])
     @ (if include_tables rq then [''table_analysis''] else [])
     @ (if enhance_content_flag rq then [''content_enhancement''] else [])
     @ [''structure_analysis'']"

text \<open>A result whose metadata holds the list \<open>fs\<close> of feature names.\<close>

definition has_features :: "dict \<Rightarrow> string list \<Rightarrow> bool" where
  "has_features r fs =
     (\<exists>metadata. map_of r ''metadata'' = Some (JDict metadata)
        \<and> map_of metadata ''features_used'' = Some (JList (map JStr fs)))"

subsection \<open>Example inputs\<close>

text \<open>The handler as \<^verbatim>\<open>__init__\<close> leaves it, and a loading in which everything succeeds.\<close>

definition fresh_handler :: handler where
  "fresh_handler =
     \<lparr>model_loaded = False, converter_present = False,
      image_model_loaded = False, formula_model_loaded = False\<rparr>"

definition loader_ok :: loader where
  "loader_ok = \<lparr>converter_init = None, image_model_init = None, formula_model_init = None\<rparr>"

text \<open>
  A handler with both models loaded. A captioning model that raises on image 0 and
  captions every other image, with a pattern matcher that finds one formula. A document
  with two images and one table, and a document whose collections are objects that cannot
  be iterated and whose exported text is not a string. Two requests.
\<close>

definition ready_handler :: handler where
  "ready_handler =
     \<lparr>model_loaded = True, converter_present = True,
      image_model_loaded = True, formula_model_loaded = True\<rparr>"

definition plain_env :: "nat env" where
  "plain_env =
     \<lparr>caption_image = (\<lambda>img. if img = 0 then Inl (ExternalError ''generation failed'')
                              else Inr ''a dog on a chair''),
      finditer = (\<lambda>pattern content. if pattern = hd math_patterns then [(''$x=1$'', 0, 5)] else [])\<rparr>"

definition sound_document :: "nat document" where
  "sound_document =
     \<lparr>images = Some (Items [1, 0]),
      tables = Some (Items [\<lparr>rows = Some (JList [JNone]), columns = Some JNone\<rparr>]),
      elements = None,
      export_to_markdown = Inr (JStr ''$x=1$ and a table''),
      export_to_html = Inr (JStr ''<p>x</p>'')\<rparr>"

definition broken_document :: "nat document" where
  "broken_document =
     \<lparr>images = Some (NotIterable ''NoneType''),
      tables = Some (NotIterable ''NoneType''),
      elements = Some (NotIterable ''NoneType''),
      export_to_markdown = Inr JNone,
      export_to_html = Inr JNone\<rparr>"

definition all_features :: request where
  "all_features =
     \<lparr>file_path = ''/tmp/doc.pdf'', output_format = ''markdown'',
      include_images = True, include_tables = True,
      include_image_descriptions = True, include_formula_enrichment = True,
      ocr_languages = None, enhance_content_flag = True\<rparr>"

definition tables_only :: request where
  "tables_only =
     \<lparr>file_path = ''/tmp/doc.pdf'', output_format = ''markdown'',
      include_images = False, include_tables = True,
      include_image_descriptions = False, include_formula_enrichment = False,
      ocr_languages = None, enhance_content_flag = False\<rparr>"

text \<open>
  A document with two tables, the first of which exposes rows that have no length, and a
  dictionary with a text.
\<close>

definition two_tables_document :: "nat document" where
  "two_tables_document =
     \<lparr>images = None,
      tables = Some (Items [\<lparr>rows = Some JNone, columns = None\<rparr>,
                            \<lparr>rows = None, columns = Some (JList [JNone])\<rparr>]),
      elements = None,
      export_to_markdown = Inr (JStr ''$x=1$ and a table''),
      export_to_html = Inr (JStr ''<p>x</p>'')\<rparr>"

definition text_result :: dict where
  "text_result = [(''content'', JStr ''$x=1$ and a table'')]"

section \<open>Properties\<close>

subsection \<open>The lexical translator (C8)\<close>

lemma translate_loop_fr_find:
  "translate_loop_fr table low text =
     (case find (\<lambda>(phrase, _). py_in phrase low) table of
        None \<Rightarrow> text
      | Some (phrase, subst) \<Rightarrow> py_replace phrase subst text)"
  by (induction table low "text" rule: translate_loop_fr.induct) simp_all

lemma translate_loop_en_find:
  "translate_loop_en table text =
     (case find (\<lambda>(phrase, _). py_in phrase text) table of
        None \<Rightarrow> text
      | Some (phrase, subst) \<Rightarrow> py_replace phrase subst text)"
  by (induction table "text" rule: translate_loop_en.induct) simp_all

lemma translations_fr_lower: "\<forall>(phrase, subst) \<in> set translations_fr. lower phrase = phrase"
  by (simp add: translations_fr_def lower_def is_upper_def)

lemma find_cong_on: "(\<And>x. x \<in> set xs \<Longrightarrow> P x = Q x) \<Longrightarrow> find P xs = find Q xs"
  by (induction xs) auto

text \<open>
  C8. Each direction of the translator applies the first entry of its table that matches
  and no other, and returns the text unchanged when none matches. Forward, an entry
  matches when its phrase is a substring of the text up to case; backward, when it is a
  substring of the text as it is. The substitution applied is \<^verbatim>\<open>text.replace\<close> on the
  text itself, in both directions.
\<close>

theorem translate_first_match:
  "translate_to_french text =
     lexical_translate_spec (\<lambda>phrase. ci_substring phrase text) translations_fr text
   \<and> translate_to_english text =
     lexical_translate_spec (\<lambda>phrase. py_in phrase text) translations_en text"
proof -
  have "find (\<lambda>(phrase, _). py_in phrase (lower text)) translations_fr
        = find (\<lambda>(phrase, _). ci_substring phrase text) translations_fr"
    by (rule find_cong_on) (use translations_fr_lower in \<open>auto simp: ci_substring_def\<close>)
  then show ?thesis
    by (simp add: translate_to_french_def translate_to_english_def lexical_translate_spec_def
        translate_loop_fr_find translate_loop_en_find)
qed

text \<open>
  The two directions differ on a text that has a phrase in another case: forward the
  entry is chosen and its replacement finds nothing to replace, so later entries are not
  tried; backward the entry is not chosen.
\<close>

lemma translate_to_french_other_case:
  "translate_to_french ''A Dog and a cat'' = ''A Dog and a cat''"
  by code_simp

lemma translate_to_french_all_occurrences:
  "translate_to_french ''a dog and a cat and a dog'' = ''un chien and a cat and un chien''"
  by code_simp

subsection \<open>Formula classification (C4)\<close>

text \<open>
  C4. For every span, the type of the enrichment is arithmetic when the cleaned text has a
  plus or a minus sign, else equation when it has an equals sign, else exponential when it
  has a caret or two stars, else mathematical expression; the four spans of the
  specification get the four types.
\<close>

theorem enrich_single_formula_type:
  "entry (enrich_single_formula (JStr f)) ''type'' = Some (JStr (classify_spec (clean_formula f)))
   \<and> entry (enrich_single_formula (JStr ''5 + 3'')) ''type'' = Some (JStr ''arithmetic'')
   \<and> entry (enrich_single_formula (JStr ''x = 5'')) ''type'' = Some (JStr ''equation'')
   \<and> entry (enrich_single_formula (JStr ''x^2'')) ''type'' = Some (JStr ''exponential'')
   \<and> entry (enrich_single_formula (JStr ''hello'')) ''type''
       = Some (JStr ''mathematical_expression'')"
proof -
  have general: "entry (enrich_single_formula (JStr f)) ''type''
                 = Some (JStr (classify_spec (clean_formula f)))" for f
    by (simp add: enrich_single_formula_def entry_def classify_spec_def set_kind_def Let_def)
  have "classify_spec (clean_formula ''5 + 3'') = ''arithmetic''" by code_simp
  moreover have "classify_spec (clean_formula ''x = 5'') = ''equation''" by code_simp
  moreover have "classify_spec (clean_formula ''x^2'') = ''exponential''" by code_simp
  moreover have "classify_spec (clean_formula ''hello'') = ''mathematical_expression''"
    by code_simp
  ultimately show ?thesis by (simp only: general simp_thms)
qed

subsection \<open>Content-type detection (C5)\<close>

lemma lower_table: "lower ''table'' = ''table''" "lower ''image'' = ''image''"
  by (simp_all add: lower_def is_upper_def)

lemma detect_content_type_cases:
  "detect_content_type c =
     (if formula_marker c then ''document_with_formulas''
      else if image_marker c then ''document_with_images''
      else if table_marker c then ''document_with_tables''
      else ''document'')"
  by (simp add: detect_content_type_def table_marker_def image_marker_def formula_marker_def
      ci_substring_def lower_table Let_def)

lemma enhance_content_on_text:
  assumes "map_of er ''content'' = Some (JStr c)"
  shows "map_of (enhance_content er) ''content_enhancement'' =
           Some (JDict [(''statistics'',
                   JDict [(''word_count'', JInt (int (length (py_split_ws c)))),
                          (''character_count'', JInt (int (length c))),
                          (''line_count'', JInt (int (length (py_split [CHR 0x0A] c)))),
                          (''paragraph_count'',
                             JInt (int (length (filter (\<lambda>p. py_strip p \<noteq> [])
                                                  (py_split [CHR 0x0A, CHR 0x0A] c)))))]),
                     (''content_type'', JStr (detect_content_type c)),
                     (''language_detected'', JStr ''fr''),
                     (''readability_score'', calculate_readability (JStr c))])"
  using assms
  by (simp add: enhance_content_def enhance_content_try_def getitem_def Let_def update_conv')

text \<open>
  C5. The three checks run in the order tables, images, formulas and each one that matches
  overwrites the type, so the last that matches decides: a text with a formula marker is a
  document with formulas whatever else it has, in particular when markers of all three
  kinds are present; this is the content type that \<^verbatim>\<open>_enhance_content\<close> records.
\<close>

theorem content_kind_last_match_wins:
  "detect_content_type c =
     (if formula_marker c then ''document_with_formulas''
      else if image_marker c then ''document_with_images''
      else if table_marker c then ''document_with_tables''
      else ''document'')
   \<and> (table_marker c \<and> image_marker c \<and> formula_marker c
        \<longrightarrow> detect_content_type c = ''document_with_formulas'')
   \<and> (map_of er ''content'' = Some (JStr c)
        \<longrightarrow> (\<exists>d. map_of (enhance_content er) ''content_enhancement'' = Some (JDict d)
                 \<and> map_of d ''content_type'' = Some (JStr (detect_content_type c))))"
proof -
  have "\<exists>d. map_of (enhance_content er) ''content_enhancement'' = Some (JDict d)
             \<and> map_of d ''content_type'' = Some (JStr (detect_content_type c))"
    if "map_of er ''content'' = Some (JStr c)"
    by (subst enhance_content_on_text [OF that]) simp
  then show ?thesis
    using detect_content_type_cases [of c] by simp
qed

theorem content_kind_last_match_wins_witness:
  "table_marker ''a table with | data and an image and $x$''
   \<and> image_marker ''a table with | data and an image and $x$''
   \<and> formula_marker ''a table with | data and an image and $x$''
   \<and> detect_content_type ''a table with | data and an image and $x$'' = ''document_with_formulas''
   \<and> (\<exists>d. map_of (enhance_content [(''content'', JStr ''a table with | data and an image and $x$'')])
              ''content_enhancement'' = Some (JDict d)
          \<and> map_of d ''content_type'' = Some (JStr ''document_with_formulas''))"
proof -
  let ?c = "''a table with | data and an image and $x$''"
  have m: "table_marker ?c" "image_marker ?c" "formula_marker ?c"
    by code_simp+
  have c: "map_of [(''content'', JStr ?c)] ''content'' = Some (JStr ?c)" by simp
  from content_kind_last_match_wins [of ?c "[(''content'', JStr ?c)]"] m c
  have "detect_content_type ?c = ''document_with_formulas''"
    and "\<exists>d. map_of (enhance_content [(''content'', JStr ?c)]) ''content_enhancement''
               = Some (JDict d)
             \<and> map_of d ''content_type'' = Some (JStr (detect_content_type ?c))"
    by blast+
  with m show ?thesis by (simp only: simp_thms)
qed

subsection \<open>Readability (C6)\<close>

lemma length_split_from_char:
  "length (split_from [c] cur s) = Suc (count_list s c)"
  by (induction "[c]" cur s rule: split_from.induct) (auto simp: starts_with_def)

lemma length_py_split_char: "length (py_split [c] s) = Suc (count_list s c)"
  by (simp add: py_split_def length_split_from_char)

lemma score_clamp:
  "score (if r < 100 then (if 0 < r then JFloat r else JInt 0) else JInt 100)
   = max 0 (min 100 r)"
  by (simp add: score_def max_def min_def)

lemma calculate_readability_text:
  "calculate_readability (JStr s) =
     (if py_split_ws s = [] then JFloat 0
      else if readability_formula s < 100
        then (if 0 < readability_formula s then JFloat (readability_formula s) else JInt 0)
      else JInt 100)"
  unfolding calculate_readability_def readability_formula_def Let_def
  by (simp only: jval.case length_0_conv length_py_split_char nat.simps simp_thms if_False)

text \<open>
  C6, as the code has it. With floats read as exact rationals, the score of a text is 0
  when the text has no word, and otherwise the readability formula clamped to the interval
  from 0 to 100; the number of sentences is the number of full stops plus one, so it is
  never zero; on an object that is not a string the score is 50.
\<close>

theorem calculate_readability_value:
  "score (calculate_readability (JStr s)) =
     (if py_split_ws s = [] then 0 else max 0 (min 100 (readability_formula s)))
   \<and> length (py_split ''.'' s) = Suc (count_list s (CHR ''.''))
   \<and> ((\<forall>t. v \<noteq> JStr t) \<longrightarrow> calculate_readability v = JFloat 50)"
proof -
  have a: "score (calculate_readability (JStr s)) =
     (if py_split_ws s = [] then 0 else max 0 (min 100 (readability_formula s)))"
  proof (cases "py_split_ws s = []")
    case True
    then show ?thesis by (simp add: calculate_readability_text score_def)
  next
    case False
    then show ?thesis
      using score_clamp [of "readability_formula s"]
      by (simp only: calculate_readability_text if_False)
  qed
  have b: "calculate_readability v = JFloat 50" if "\<forall>t. v \<noteq> JStr t"
    using that by (cases v) (simp_all add: calculate_readability_def)
  show ?thesis using a b by (simp add: length_py_split_char)
qed

theorem calculate_readability_value_witness:
  "score (calculate_readability (JStr ''Hello world. This is it.'')) = 547 / 6
   \<and> length (py_split ''.'' ''Hello world. This is it.'') = 3
   \<and> calculate_readability JNone = JFloat 50"
proof -
  have w: "py_split_ws ''Hello world. This is it.'' = [''Hello'', ''world.'', ''This'', ''is'', ''it.'']"
    by code_simp
  have n: "\<forall>t. JNone \<noteq> JStr t" by simp
  have f: "readability_formula ''Hello world. This is it.'' = 547 / 6"
    by (simp add: readability_formula_def w length_py_split_char)
  from calculate_readability_value [of "''Hello world. This is it.''" JNone] n w f
  show ?thesis by simp
qed

text \<open>
  The claim that the score is 0 whenever the text has no sentence delimiter fails:
  a single word without a full stop scores 89.5.
\<close>

theorem readability_no_delimiter_counterexample:
  "count_list ''hello'' (CHR ''.'') = 0
   \<and> score (calculate_readability (JStr ''hello'')) = 179 / 2
   \<and> score (calculate_readability (JStr ''hello'')) \<noteq> 0"
  by code_simp

subsection \<open>Table summaries (C7)\<close>




text \<open>
  A table with neither attribute counts zero rows and columns; a table whose attribute has
  no length gets the error record of the \<^verbatim>\<open>except\<close> branch instead of an analysis.
\<close>

lemma analyze_single_table_no_attributes:
  "analyze_single_table \<lparr>rows = None, columns = None\<rparr> i =
     JDict [(''index'', JInt (int i)),
            (''type'', JStr ''data_table''),
            (''description_fr'', JStr (''Tableau de donn'' @ [CHR 0xE9] @ ''es'')),
            (''description_en'', JStr ''Data table''),
            (''rows'', JInt 0),
            (''columns'', JInt 0),
            (''has_headers'', JBool False),
            (''data_types'', JList []),
            (''summary'', JStr [])]"
  by (simp add: analyze_single_table_def analyze_single_table_try_def read_len_def int_at_def)

lemma analyze_single_table_no_length:
  "exposed_count (rows t) = Inl e \<Longrightarrow> analyze_single_table t i = table_error i e"
  by (auto simp: analyze_single_table_def analyze_single_table_try_def read_len_def
      exposed_count_def split: option.splits sum.splits)

subsection \<open>Each stage writes its own key only (C10)\<close>

lemma writes_only_frame:
  "writes_only key attempt before after \<Longrightarrow> k \<noteq> key \<Longrightarrow> map_of after k = map_of before k"
  by (auto simp: writes_only_def update_conv' split: sum.splits)

lemma add_image_descriptions_writes:
  "writes_only ''image_descriptions'' (add_image_descriptions_try h env doc er) er
     (add_image_descriptions h env doc er)"
  by (auto simp: writes_only_def add_image_descriptions_def add_image_descriptions_try_def
      split: sum.splits)

lemma enrich_formulas_writes:
  "writes_only ''formula_enrichments'' (enrich_formulas_try h env er) er (enrich_formulas h env er)"
  by (auto simp: writes_only_def enrich_formulas_def enrich_formulas_try_def
      split: sum.splits jval.splits)

lemma analyze_tables_writes:
  "writes_only ''table_analysis'' (analyze_tables_try doc er) er (analyze_tables doc er)"
  by (auto simp: writes_only_def analyze_tables_def analyze_tables_try_def split: sum.splits)

lemma enhance_content_writes:
  "writes_only ''content_enhancement'' (enhance_content_try er) er (enhance_content er)"
  by (auto simp: writes_only_def enhance_content_def enhance_content_try_def Let_def
      split: sum.splits jval.splits)

lemma analyze_document_structure_writes:
  "writes_only ''document_structure'' (analyze_document_structure_try doc er) er
     (analyze_document_structure doc er)"
  by (auto simp: writes_only_def analyze_document_structure_def
      analyze_document_structure_try_def split: sum.splits option.splits prod.splits)

text \<open>
  C10. Each of the five stages returns the dictionary it was given, unchanged when the body
  of its \<^verbatim>\<open>try\<close> raised, and otherwise unchanged or with its own key assigned; so every
  other key, \<^verbatim>\<open>content\<close>, \<^verbatim>\<open>output_format\<close> and the keys of the earlier stages among
  them, has the value it had, for every dictionary passed in.
\<close>

theorem stage_writes_only_its_key:
  "writes_only ''image_descriptions'' (add_image_descriptions_try h env doc er) er
     (add_image_descriptions h env doc er)
   \<and> writes_only ''formula_enrichments'' (enrich_formulas_try h env er) er
       (enrich_formulas h env er)
   \<and> writes_only ''table_analysis'' (analyze_tables_try doc er) er (analyze_tables doc er)
   \<and> writes_only ''content_enhancement'' (enhance_content_try er) er (enhance_content er)
   \<and> writes_only ''document_structure'' (analyze_document_structure_try doc er) er
       (analyze_document_structure doc er)
   \<and> (k \<noteq> ''image_descriptions''
        \<longrightarrow> map_of (add_image_descriptions h env doc er) k = map_of er k)
   \<and> (k \<noteq> ''formula_enrichments'' \<longrightarrow> map_of (enrich_formulas h env er) k = map_of er k)
   \<and> (k \<noteq> ''table_analysis'' \<longrightarrow> map_of (analyze_tables doc er) k = map_of er k)
   \<and> (k \<noteq> ''content_enhancement'' \<longrightarrow> map_of (enhance_content er) k = map_of er k)
   \<and> (k \<noteq> ''document_structure''
        \<longrightarrow> map_of (analyze_document_structure doc er) k = map_of er k)"
  using writes_only_frame [OF add_image_descriptions_writes, of k h env doc er]
    writes_only_frame [OF enrich_formulas_writes, of k h env er]
    writes_only_frame [OF analyze_tables_writes, of k doc er]
    writes_only_frame [OF enhance_content_writes, of k er]
    writes_only_frame [OF analyze_document_structure_writes, of k doc er]
    add_image_descriptions_writes [of h env doc er] enrich_formulas_writes [of h env er]
    analyze_tables_writes [of doc er] enhance_content_writes [of er]
    analyze_document_structure_writes [of doc er]
  by blast

text \<open>
  On a document whose collections cannot be iterated and whose text is not a string, every
  stage that reads them takes its exception path; the content is kept there as well.
\<close>

theorem stage_writes_only_its_key_witness:
  "add_image_descriptions_try ready_handler plain_env broken_document
       (initial_result all_features JNone)
     = Inl (TypeError (quoted ''NoneType'' @ '' object is not iterable''))
   \<and> map_of (add_image_descriptions ready_handler plain_env broken_document
               (initial_result all_features JNone)) ''content'' = Some JNone
   \<and> map_of (enrich_formulas ready_handler plain_env (initial_result all_features JNone))
       ''content'' = Some JNone
   \<and> map_of (analyze_tables broken_document (initial_result all_features JNone)) ''content''
       = Some JNone
   \<and> map_of (enhance_content (initial_result all_features JNone)) ''content'' = Some JNone
   \<and> map_of (analyze_document_structure broken_document (initial_result all_features JNone))
       ''content'' = Some JNone"
proof -
  have c: "map_of (initial_result all_features JNone) ''content'' = Some JNone"
    by (simp add: initial_result_def)
  have t: "add_image_descriptions_try ready_handler plain_env broken_document
             (initial_result all_features JNone)
           = Inl (TypeError (quoted ''NoneType'' @ '' object is not iterable''))"
    by (simp add: add_image_descriptions_try_def ready_handler_def broken_document_def
        py_iter_def)
  from stage_writes_only_its_key [of ready_handler plain_env broken_document
      "initial_result all_features JNone" "''content''"] c t
  show ?thesis by simp
qed

subsection \<open>Item failures inside the loops (C2)\<close>

lemma images_loop_map:
  "images_loop gen tr i imgs =
     map (\<lambda>(k, img). describe_image gen tr k img) (List.enumerate i imgs)"
  by (induction imgs arbitrary: i) simp_all

lemma tables_loop_map:
  "tables_loop analyze i tbls =
     map (\<lambda>(k, table). case analyze table k of Inl e \<Rightarrow> table_error k e | Inr a \<Rightarrow> a)
       (List.enumerate i tbls)"
  by (induction tbls arbitrary: i) simp_all

lemma matches_loop_returns:
  "matches_loop (\<lambda>f. Inr (g f)) ms =
     map (\<lambda>(formula_text, pos). formula_record formula_text (g formula_text) pos) ms"
  by (induction ms) auto

lemma describe_images_map:
  "describe_images env imgs =
     map (\<lambda>(k, img). image_record k (generate_image_description env img)
                        (translate_to_english (generate_image_description env img)))
       (List.enumerate 0 imgs)"
  by (simp add: describe_images_def images_loop_map describe_image_def)

lemma describe_images_length: "length (describe_images env imgs) = length imgs"
  by (simp add: describe_images_map)

lemma analyze_tables_items:
  "tables doc = Some (Items tbls) \<Longrightarrow>
     analyze_tables doc er =
       AList.update ''table_analysis''
         (JList (map (\<lambda>(k, table). analyze_single_table table k) (List.enumerate 0 tbls))) er"
  by (simp add: analyze_tables_def analyze_tables_try_def py_iter_def tables_loop_map)

lemma add_image_descriptions_records:
  "image_model_loaded h \<Longrightarrow> images doc = Some (Items imgs) \<Longrightarrow>
     add_image_descriptions h env doc er =
       AList.update ''image_descriptions'' (JList (describe_images env imgs)) er"
  by (simp add: add_image_descriptions_def add_image_descriptions_try_def py_iter_def)

lemma enrich_formulas_on_text:
  "formula_model_loaded h \<Longrightarrow> map_of er ''content'' = Some (JStr c) \<Longrightarrow>
     enrich_formulas h env er =
       AList.update ''formula_enrichments''
         (JList (concat (map (\<lambda>pattern.
                   map (\<lambda>(formula_text, pos).
                          formula_record formula_text (enrich_single_formula (JStr formula_text)) pos)
                     (finditer env pattern c)) math_patterns))) er"
  by (simp add: enrich_formulas_def enrich_formulas_try_def getitem_def patterns_loop_def
      matches_loop_returns)

lemma enrich_single_formula_not_text:
  "\<forall>f. v \<noteq> JStr f \<Longrightarrow>
     enrich_single_formula v =
       JDict [(''formula'', v),
              (''type'', JStr ''unknown''),
              (''description_fr'', JStr ''Formule non reconnue''),
              (''description_en'', JStr ''Unrecognized formula'')]"
  by (cases v) (simp_all add: enrich_single_formula_def)

text \<open>
  C2. In each of the three stages that iterate a collection, every item gives exactly one
  record at its place, so the failure of one item neither aborts the stage nor touches the
  records of the others, and a failing item gets a fixed fallback record. For a table whose
  analysis raises it is the error record with the index and the text of the exception;
  for an image whose captioning raises it is the record with the fixed caption; a formula
  match is a string, on which the enrichment does not raise, and on anything else the
  enrichment answers with the record of an unrecognised formula. The exception is caught
  by the function that processes the item, so the handlers written in the loops themselves
  are never entered.
\<close>

theorem item_failures_get_fallback_records:
  "(tables doc = Some (Items tbls)
      \<longrightarrow> map_of (analyze_tables doc er) ''table_analysis'' =
            Some (JList (map (\<lambda>(k, table). analyze_single_table table k)
                           (List.enumerate 0 tbls))))
   \<and> (analyze_single_table_try table k = Inl e
        \<longrightarrow> analyze_single_table table k = table_error k e)
   \<and> (image_model_loaded h \<and> images doc = Some (Items imgs)
        \<longrightarrow> map_of (add_image_descriptions h env doc er) ''image_descriptions'' =
              Some (JList (map (\<lambda>(k, img).
                                  image_record k (generate_image_description env img)
                                    (translate_to_english (generate_image_description env img)))
                             (List.enumerate 0 imgs))))
   \<and> (caption_image env img = Inl e
        \<longrightarrow> image_record k (generate_image_description env img)
              (translate_to_english (generate_image_description env img))
            = image_record k ''Image avec contenu visuel'' ''Image avec contenu visuel'')
   \<and> (formula_model_loaded h \<and> map_of er ''content'' = Some (JStr c)
        \<longrightarrow> map_of (enrich_formulas h env er) ''formula_enrichments'' =
              Some (JList (concat (map (\<lambda>pattern.
                      map (\<lambda>(formula_text, pos).
                             formula_record formula_text
                               (enrich_single_formula (JStr formula_text)) pos)
                        (finditer env pattern c)) math_patterns))))
   \<and> ((\<forall>f. v \<noteq> JStr f)
        \<longrightarrow> enrich_single_formula v =
              JDict [(''formula'', v),
                     (''type'', JStr ''unknown''),
                     (''description_fr'', JStr ''Formule non reconnue''),
                     (''description_en'', JStr ''Unrecognized formula'')])"
proof -
  have t: "translate_to_english ''Image avec contenu visuel'' = ''Image avec contenu visuel''"
    by code_simp
  have "generate_image_description env img = ''Image avec contenu visuel''"
    if "caption_image env img = Inl e"
    using that by (simp add: generate_image_description_def)
  then show ?thesis
    using enrich_single_formula_not_text [of v]
    by (simp add: analyze_tables_items add_image_descriptions_records describe_images_map
        enrich_formulas_on_text update_conv' analyze_single_table_def t)
qed

theorem item_failures_get_fallback_records_witness:
  "analyze_single_table_try \<lparr>rows = Some JNone, columns = None\<rparr> 0
     = Inl (TypeError (''object of type '' @ quoted ''NoneType'' @ '' has no len()''))
   \<and> map_of (analyze_tables two_tables_document text_result) ''table_analysis'' =
       Some (JList [table_error 0 (TypeError (''object of type '' @ quoted ''NoneType''
                                               @ '' has no len()'')),
                    analyze_single_table \<lparr>rows = None, columns = Some (JList [JNone])\<rparr> 1])
   \<and> caption_image plain_env 0 = Inl (ExternalError ''generation failed'')
   \<and> map_of (add_image_descriptions ready_handler plain_env sound_document text_result)
       ''image_descriptions'' =
       Some (JList [image_record 0 ''un chien on a chair'' ''a dog on a chair'',
                    image_record 1 ''Image avec contenu visuel'' ''Image avec contenu visuel''])
   \<and> map_of (enrich_formulas ready_handler plain_env text_result) ''formula_enrichments'' =
       Some (JList [formula_record ''$x=1$'' (enrich_single_formula (JStr ''$x=1$'')) (0, 5)])
   \<and> enrich_single_formula JNone =
       JDict [(''formula'', JNone),
              (''type'', JStr ''unknown''),
              (''description_fr'', JStr ''Formule non reconnue''),
              (''description_en'', JStr ''Unrecognized formula'')]"
proof -
  let ?bad = "\<lparr>rows = Some JNone, columns = None\<rparr>"
  let ?good = "\<lparr>rows = None, columns = Some (JList [JNone])\<rparr>"
  let ?e = "TypeError (''object of type '' @ quoted ''NoneType'' @ '' has no len()'')"
  have a: "analyze_single_table_try ?bad 0 = Inl ?e"
    by (simp add: analyze_single_table_try_def read_len_def py_len_def type_name_def)
  have tb: "tables two_tables_document = Some (Items [?bad, ?good])"
    by (simp add: two_tables_document_def)
  have im: "image_model_loaded ready_handler \<and> images sound_document = Some (Items [1, 0])"
    by (simp add: ready_handler_def sound_document_def)
  have c0: "caption_image plain_env 0 = Inl (ExternalError ''generation failed'')"
    by (simp add: plain_env_def)
  have g1: "generate_image_description plain_env 1 = ''un chien on a chair''"
    by code_simp
  have e1: "translate_to_english ''un chien on a chair'' = ''a dog on a chair''"
    by code_simp
  have fm: "formula_model_loaded ready_handler
            \<and> map_of text_result ''content'' = Some (JStr ''$x=1$ and a table'')"
    by (simp add: ready_handler_def text_result_def)
  have fi: "concat (map (\<lambda>pattern.
                      map (\<lambda>(formula_text, pos).
                             formula_record formula_text
                               (enrich_single_formula (JStr formula_text)) pos)
                        (finditer plain_env pattern ''$x=1$ and a table'')) math_patterns)
            = [formula_record ''$x=1$'' (enrich_single_formula (JStr ''$x=1$'')) (0, 5)]"
    by (simp add: plain_env_def math_patterns_def)
  have n: "\<forall>f. JNone \<noteq> JStr f" by simp
  have en: "List.enumerate 0 [?bad, ?good] = [(0, ?bad), (1, ?good)]"
    "List.enumerate 0 [1::nat, 0] = [(0, 1), (1, 0)]"
    by (simp_all add: enumerate_eq_zip upt_rec)
  have tables_part:
    "map_of (analyze_tables two_tables_document text_result) ''table_analysis'' =
       Some (JList [table_error 0 ?e, analyze_single_table ?good 1])"
    and images_part:
    "map_of (add_image_descriptions ready_handler plain_env sound_document text_result)
       ''image_descriptions'' =
       Some (JList [image_record 0 ''un chien on a chair'' ''a dog on a chair'',
                    image_record 1 ''Image avec contenu visuel'' ''Image avec contenu visuel''])"
    and formulas_part:
    "map_of (enrich_formulas ready_handler plain_env text_result) ''formula_enrichments'' =
       Some (JList [formula_record ''$x=1$'' (enrich_single_formula (JStr ''$x=1$'')) (0, 5)])"
    and unknown_part:
    "enrich_single_formula JNone =
       JDict [(''formula'', JNone),
              (''type'', JStr ''unknown''),
              (''description_fr'', JStr ''Formule non reconnue''),
              (''description_en'', JStr ''Unrecognized formula'')]"
    using item_failures_get_fallback_records [where doc = two_tables_document
        and tbls = "[?bad, ?good]" and er = text_result and table = ?bad and k = 0 and e = ?e
        and h = ready_handler and env = plain_env and c = "''$x=1$ and a table''" and v = JNone]
      item_failures_get_fallback_records [where doc = sound_document and er = text_result
        and h = ready_handler and imgs = "[1, 0]" and env = plain_env and img = 0 and k = 1
        and e = "ExternalError ''generation failed''"]
      a tb im c0 g1 e1 fm fi n
    by (simp_all add: en)
  with a c0 show ?thesis by simp
qed

subsection \<open>The list of features used (C1)\<close>

lemma has_features_used: "has_features r fs \<Longrightarrow> features_used r = fs"
  by (auto simp: has_features_def features_used_def o_def)

lemma has_features_initial: "has_features (initial_result rq content) []"
  by (simp add: has_features_def initial_result_def)

lemma has_features_append:
  "has_features r fs \<Longrightarrow> \<exists>r'. append_feature name r = Inr r' \<and> has_features r' (fs @ [name])"
  by (auto simp: has_features_def append_feature_def getitem_def update_conv')

lemma has_features_stage:
  assumes "has_features r fs" and "writes_only key attempt r r'" and "key \<noteq> ''metadata''"
  shows "has_features r' fs"
proof -
  have "map_of r' ''metadata'' = map_of r ''metadata''"
    by (rule writes_only_frame [OF assms(2)]) (use assms(3) in simp)
  with assms(1) show ?thesis by (simp add: has_features_def)
qed

lemma run_stage_features:
  assumes "has_features r fs" and "writes_only key attempt r (stage r)" and "key \<noteq> ''metadata''"
  shows "\<exists>r'. run_stage requested stage name r = Inr r'
              \<and> has_features r' (fs @ (if requested then [name] else []))"
proof (cases requested)
  case True
  from has_features_stage [OF assms] have "has_features (stage r) fs" .
  from has_features_append [OF this, of name] True show ?thesis
    by (simp add: run_stage_def)
next
  case False
  with assms(1) show ?thesis by (simp add: run_stage_def)
qed

lemma enrich_features:
  "\<exists>r. enrich h env rq doc content = Inr r \<and> has_features r (expected_features h rq)"
proof -
  let ?b1 = "include_images rq \<and> include_image_descriptions rq \<and> image_model_loaded h"
  let ?b2 = "include_formula_enrichment rq \<and> formula_model_loaded h"
  let ?f1 = "[] @ (if ?b1 then [''image_descriptions''] else [])"
  let ?f2 = "?f1 @ (if ?b2 then [''formula_enrichment''] else [])"
  let ?f3 = "?f2 @ (if include_tables rq then [''table_analysis''] else [])"
  let ?f4 = "?f3 @ (if enhance_content_flag rq then [''content_enhancement''] else [])"
  let ?f5 = "?f4 @ (if True then [''structure_analysis''] else [])"
  have "\<exists>r'. run_stage ?b1 (add_image_descriptions h env doc) ''image_descriptions''
               (initial_result rq content) = Inr r' \<and> has_features r' ?f1"
    by (rule run_stage_features [where key = "''image_descriptions''"
          and attempt = "add_image_descriptions_try h env doc (initial_result rq content)"])
      (rule has_features_initial, rule add_image_descriptions_writes, simp)
  then obtain r1 where r1: "run_stage ?b1 (add_image_descriptions h env doc)
                              ''image_descriptions'' (initial_result rq content) = Inr r1"
    and f1: "has_features r1 ?f1" by blast
  have "\<exists>r'. run_stage ?b2 (enrich_formulas h env) ''formula_enrichment'' r1 = Inr r'
             \<and> has_features r' ?f2"
    by (rule run_stage_features [where key = "''formula_enrichments''"
          and attempt = "enrich_formulas_try h env r1"])
      (rule f1, rule enrich_formulas_writes, simp)
  then obtain r2 where r2: "run_stage ?b2 (enrich_formulas h env) ''formula_enrichment'' r1
                              = Inr r2"
    and f2: "has_features r2 ?f2" by blast
  have "\<exists>r'. run_stage (include_tables rq) (analyze_tables doc) ''table_analysis'' r2 = Inr r'
             \<and> has_features r' ?f3"
    by (rule run_stage_features [where key = "''table_analysis''"
          and attempt = "analyze_tables_try doc r2"])
      (rule f2, rule analyze_tables_writes, simp)
  then obtain r3 where r3: "run_stage (include_tables rq) (analyze_tables doc)
                              ''table_analysis'' r2 = Inr r3"
    and f3: "has_features r3 ?f3" by blast
  have "\<exists>r'. run_stage (enhance_content_flag rq) enhance_content ''content_enhancement'' r3
               = Inr r'
             \<and> has_features r' ?f4"
    by (rule run_stage_features [where key = "''content_enhancement''"
          and attempt = "enhance_content_try r3"])
      (rule f3, rule enhance_content_writes, simp)
  then obtain r4 where r4: "run_stage (enhance_content_flag rq) enhance_content
                              ''content_enhancement'' r3 = Inr r4"
    and f4: "has_features r4 ?f4" by blast
  have "\<exists>r'. run_stage True (analyze_document_structure doc) ''structure_analysis'' r4 = Inr r'
             \<and> has_features r' ?f5"
    by (rule run_stage_features [where key = "''document_structure''"
          and attempt = "analyze_document_structure_try doc r4"])
      (rule f4, rule analyze_document_structure_writes, simp)
  then obtain r5 where r5: "run_stage True (analyze_document_structure doc)
                              ''structure_analysis'' r4 = Inr r5"
    and f5: "has_features r5 ?f5" by blast
  have "enrich h env rq doc content = Inr r5"
    by (simp add: enrich_def and_then_def r1 r2 r3 r4 r5)
  moreover have "has_features r5 (expected_features h rq)"
    using f5 by (simp add: expected_features_def)
  ultimately show ?thesis by blast
qed

lemma convert_document_enrich:
  assumes "convert_document ld env h rq conversion = (Inr r, h')"
  shows "\<exists>doc content. enrich h' env rq doc content = Inr r"
proof -
  obtain ready h1 where ir: "is_ready ld h = (ready, h1)" by (cases "is_ready ld h")
  from assms ir have run:
    "and_then conversion
       (\<lambda>doc. and_then
          (if lower (output_format rq) = ''html'' then export_to_html doc
           else export_to_markdown doc)
          (\<lambda>content. enrich h1 env rq doc content)) = Inr r"
    and h': "h' = h1"
    by (auto simp: convert_document_def split: if_splits)
  from run obtain doc where
    "and_then
       (if lower (output_format rq) = ''html'' then export_to_html doc
        else export_to_markdown doc)
       (\<lambda>content. enrich h1 env rq doc content) = Inr r"
    by (cases conversion) (simp_all add: and_then_def)
  then obtain content where "enrich h1 env rq doc content = Inr r"
    by (cases "if lower (output_format rq) = ''html'' then export_to_html doc
               else export_to_markdown doc") (simp_all add: and_then_def)
  with h' show ?thesis by blast
qed

text \<open>
  C1, as the code has it. The orchestrator never raises once the text is exported, and the
  features it reports are, in stage order, exactly the stages whose guard held: the
  request flags, with the image model loaded for the image descriptions and the formula
  model loaded for the formula enrichment; the structure analysis is always reported. This
  holds for every document and every text, also those on which a stage catches an
  exception of its own: the stage is reported all the same.
\<close>

theorem features_used_are_the_guarded_stages:
  "(\<exists>r. enrich h env rq doc content = Inr r \<and> features_used r = expected_features h rq)
   \<and> (convert_document ld env h rq conversion = (Inr res, h')
        \<longrightarrow> features_used res = expected_features h' rq)"
proof -
  have "\<exists>r. enrich h env rq doc content = Inr r \<and> features_used r = expected_features h rq"
    for h :: handler and doc :: "'a document" and content
    using enrich_features [of h env rq doc content] has_features_used by blast
  moreover have "features_used res = expected_features h' rq"
    if "convert_document ld env h rq conversion = (Inr res, h')"
  proof -
    from convert_document_enrich [OF that] obtain doc content
      where "enrich h' env rq doc content = Inr res" by blast
    with enrich_features [of h' env rq doc content] has_features_used show ?thesis by auto
  qed
  ultimately show ?thesis by blast
qed


text \<open>
  A first call on a fresh handler, all features requested, on a document none of whose
  collections can be iterated and whose exported text is not a string: every stage catches
  an exception, the result has no data of any stage, and all five stages are reported.
\<close>

theorem features_used_are_the_guarded_stages_witness:
  "convert_document loader_ok plain_env fresh_handler all_features (Inr broken_document) =
     (Inr [(''content'', JNone),
           (''output_format'', JStr ''markdown''),
           (''metadata'',
              JDict [(''file_path'', JStr ''/tmp/doc.pdf''),
                     (''processing_time'', JNone),
                     (''features_used'',
                        JList [JStr ''image_descriptions'', JStr ''formula_enrichment'',
                               JStr ''table_analysis'', JStr ''content_enhancement'',
                               JStr ''structure_analysis''])])],
      ready_handler)
   \<and> expected_features ready_handler all_features =
       [''image_descriptions'', ''formula_enrichment'', ''table_analysis'',
        ''content_enhancement'', ''structure_analysis'']
   \<and> features_used
         [(''content'', JNone),
          (''output_format'', JStr ''markdown''),
          (''metadata'',
             JDict [(''file_path'', JStr ''/tmp/doc.pdf''),
                    (''processing_time'', JNone),
                    (''features_used'',
                       JList [JStr ''image_descriptions'', JStr ''formula_enrichment'',
                              JStr ''table_analysis'', JStr ''content_enhancement'',
                              JStr ''structure_analysis''])])]
       = expected_features ready_handler all_features"
proof -
  let ?res = "[(''content'', JNone),
           (''output_format'', JStr ''markdown''),
           (''metadata'',
              JDict [(''file_path'', JStr ''/tmp/doc.pdf''),
                     (''processing_time'', JNone),
                     (''features_used'',
                        JList [JStr ''image_descriptions'', JStr ''formula_enrichment'',
                               JStr ''table_analysis'', JStr ''content_enhancement'',
                               JStr ''structure_analysis''])])]"
  have c: "convert_document loader_ok plain_env fresh_handler all_features (Inr broken_document)
           = (Inr ?res, ready_handler)"
    by code_simp
  have e: "expected_features ready_handler all_features =
       [''image_descriptions'', ''formula_enrichment'', ''table_analysis'',
        ''content_enhancement'', ''structure_analysis'']"
    by code_simp
  from features_used_are_the_guarded_stages [of fresh_handler plain_env all_features
      broken_document JNone loader_ok "Inr broken_document" ?res ready_handler] c e
  show ?thesis by simp
qed

text \<open>
  The claim that a stage in which an exception was raised and caught is left out of the
  list fails: with only the tables requested, on a document whose tables cannot be
  iterated, the body of the table stage raises, the result has no table analysis, and the
  stage is reported; so is the structure analysis, whose body raises as well.
\<close>

theorem caught_stage_is_listed_counterexample:
  "analyze_tables_try broken_document (initial_result tables_only (JStr ''text''))
     = Inl (TypeError (quoted ''NoneType'' @ '' object is not iterable''))
   \<and> enrich ready_handler plain_env tables_only broken_document (JStr ''text'') =
       Inr [(''content'', JStr ''text''),
            (''output_format'', JStr ''markdown''),
            (''metadata'',
               JDict [(''file_path'', JStr ''/tmp/doc.pdf''),
                      (''processing_time'', JNone),
                      (''features_used'',
                         JList [JStr ''table_analysis'', JStr ''structure_analysis''])])]"
  by code_simp

subsection \<open>An image whose captioning raises (C3)\<close>

lemma generate_image_description_raises:
  "caption_image env img = Inl e \<Longrightarrow> generate_image_description env img = ''Image avec contenu visuel''"
  by (simp add: generate_image_description_def)

lemma translate_fixed_caption:
  "translate_to_english ''Image avec contenu visuel'' = ''Image avec contenu visuel''"
  by code_simp

lemma describe_images_nth:
  "k < length imgs \<Longrightarrow>
     describe_images env imgs ! k =
       image_record k (generate_image_description env (imgs ! k))
         (translate_to_english (generate_image_description env (imgs ! k)))"
  by (simp add: describe_images_def images_loop_map describe_image_def nth_enumerate_eq)

text \<open>
  C3, as the code has it. For every image whose captioning raises, the exception is caught
  inside \<^verbatim>\<open>_generate_image_description\<close>, which answers with its own fixed caption; the
  record of the image has this caption in both fields, the French text being kept by the
  translation to English. No exception reaches the loop, which gives one record for each
  image, the stage stores them, and the stage is reported among the features used.
\<close>

theorem failed_caption_record:
  assumes "k < length imgs" and "caption_image env (imgs ! k) = Inl e"
  shows "describe_images env imgs ! k =
           image_record k ''Image avec contenu visuel'' ''Image avec contenu visuel''
         \<and> length (describe_images env imgs) = length imgs
         \<and> (image_model_loaded h \<and> images doc = Some (Items imgs)
              \<longrightarrow> add_image_descriptions h env doc er =
                    AList.update ''image_descriptions'' (JList (describe_images env imgs)) er)
         \<and> (include_images rq \<and> include_image_descriptions rq \<and> image_model_loaded h
              \<longrightarrow> (\<exists>r. enrich h env rq doc content = Inr r
                       \<and> ''image_descriptions'' \<in> set (features_used r)))"
proof -
  have "describe_images env imgs ! k =
          image_record k ''Image avec contenu visuel'' ''Image avec contenu visuel''"
    using assms
    by (simp add: describe_images_nth generate_image_description_raises translate_fixed_caption)
  moreover have "\<exists>r. enrich h env rq doc content = Inr r
                     \<and> ''image_descriptions'' \<in> set (features_used r)"
    if "include_images rq \<and> include_image_descriptions rq \<and> image_model_loaded h"
  proof -
    from enrich_features [of h env rq doc content] obtain r
      where r: "enrich h env rq doc content = Inr r"
        and f: "has_features r (expected_features h rq)" by blast
    from has_features_used [OF f] that
    have "''image_descriptions'' \<in> set (features_used r)"
      by (simp add: expected_features_def)
    with r show ?thesis by blast
  qed
  ultimately show ?thesis
    using add_image_descriptions_records [of h doc imgs env er]
    by (simp add: describe_images_length)
qed

theorem failed_caption_record_witness:
  "caption_image plain_env ([1, 0] ! 1) = Inl (ExternalError ''generation failed'')
   \<and> describe_images plain_env [1, 0] ! 1 =
       image_record 1 ''Image avec contenu visuel'' ''Image avec contenu visuel''
   \<and> length (describe_images plain_env [1, 0]) = 2
   \<and> add_image_descriptions ready_handler plain_env sound_document [] =
       [(''image_descriptions'', JList (describe_images plain_env [1, 0]))]
   \<and> (\<exists>r. enrich ready_handler plain_env all_features sound_document (JStr ''text'') = Inr r
          \<and> ''image_descriptions'' \<in> set (features_used r))"
proof -
  have k: "(1::nat) < length [1::nat, 0]" by simp
  have c: "caption_image plain_env ([1, 0] ! 1) = Inl (ExternalError ''generation failed'')"
    by (simp add: plain_env_def)
  have h: "image_model_loaded ready_handler" "images sound_document = Some (Items [1, 0])"
    "include_images all_features" "include_image_descriptions all_features"
    by (simp_all add: ready_handler_def sound_document_def all_features_def)
  from failed_caption_record [OF k c, of ready_handler sound_document "[]" all_features
      "JStr ''text''"] c h
  show ?thesis by simp
qed

text \<open>
  The claim that the record is the fallback pair of the loop fails: the record of an image
  whose captioning raises has the caption of \<^verbatim>\<open>_generate_image_description\<close> in both
  fields.
\<close>

theorem failed_caption_counterexample:
  "caption_image plain_env 0 = Inl (ExternalError ''generation failed'')
   \<and> describe_images plain_env [0] =
       [JDict [(''index'', JInt 0),
               (''description_fr'', JStr ''Image avec contenu visuel''),
               (''description_en'', JStr ''Image avec contenu visuel'')]]
   \<and> describe_images plain_env [0] \<noteq>
       [JDict [(''index'', JInt 0),
               (''description_fr'', JStr ''Description non disponible''),
               (''description_en'', JStr ''Description not available'')]]
   \<and> image_fallback 0 =
       JDict [(''index'', JInt 0),
              (''description_fr'', JStr ''Description non disponible''),
              (''description_en'', JStr ''Description not available'')]"
  by code_simp

subsection \<open>Repeating a call (C9)\<close>




text \<open>
  A handler whose converter was released is not ready, before and after any call: the call
  raises and changes nothing.
\<close>

lemma convert_document_not_ready:
  "model_loaded h \<Longrightarrow> \<not> converter_present h \<Longrightarrow>
     convert_document ld env h rq conversion
       = (Inl (RuntimeError ''Docling handler is not ready''), h)"
  by (simp add: convert_document_def is_ready_def)

end
